theory Spec2Isabelle
  imports Main "HOL-Library.Sublist"
begin

section \<open>The XLA launch kernel of oneflow (xla\_launch\_kernel.cpp)\<close>

text \<open>
  A shallow embedding of the four member functions of \<open>XlaLaunchKernel\<close>:
  \<open>AliasMutableInputsAndOutputs\<close>, \<open>BuildLocalExecutable\<close>,
  \<open>LaunchExecutable\<close> and \<open>ForwardDataContent\<close>.  A glog \<open>CHECK\<close> that
  fails aborts the process; here it is a value \<open>Inl e\<close> of a sum type, one constructor
  of \<open>error\<close> per \<open>CHECK\<close> of the file.
\<close>

subsection \<open>Data\<close>

text \<open>Addresses; \<open>0\<close> is \<open>nullptr\<close>.\<close>

type_synonym ptr = nat

datatype error =
    EntryNamesSizeMismatch          \<comment> \<open>line 140: \<open>CHECK_EQ(entry_blobs.size(), entry_blob_names.size())\<close>\<close>
  | NeedXlaLaunchOpConf             \<comment> \<open>lines 37 and 171: \<open>CHECK(has_xla_launch_conf())\<close>\<close>
  | ExecutableBuiltFailed           \<comment> \<open>line 184: \<open>CHECK(compile_result)\<close>\<close>
  | AllocationIndicesSizeMismatch   \<comment> \<open>line 190: \<open>CHECK_EQ(return_blobs.size(), allocation_indices.size())\<close>\<close>
  | InputShapesSizeMismatch         \<comment> \<open>line 65: \<open>CHECK_EQ(entry_blobs.size(), input_shapes.size())\<close>\<close>
  | NeedOneRealOutput               \<comment> \<open>line 67: \<open>CHECK_GT(return_blobs.size(), 0)\<close>\<close>
  | TupleInputNotAllowed            \<comment> \<open>line 76: \<open>CHECK(!on_device_shape.IsTuple())\<close>\<close>
  | RunFailed                       \<comment> \<open>line 97: \<open>OF_CHECK_AND_ASSIGN\<close> on the status of \<open>RunAsync\<close>\<close>
  | ResultShapeNotTuple             \<comment> \<open>line 114: \<open>CHECK(run_result.on_host_shape().IsTuple())\<close>\<close>
  | ResultBufferMismatch            \<comment> \<open>line 121: \<open>CHECK_EQ(buffer.opaque(), output->mut_dptr())\<close>\<close>

text \<open>
  A \<open>Blob\<close> as this file reads it: its data pointer (\<open>dptr<char>()\<close>) and
  \<open>ByteSizeOfDataContentField()\<close>. The source holds blobs by pointer and never writes
  through the pointers, so a vector of \<open>Blob*\<close> is the list of the blobs pointed to.
\<close>

record Blob =
  dptr :: ptr
  ByteSizeOfDataContentField :: nat

text \<open>
  Modelled from the spec: \<open>Blob::mut_dptr\<close> is declared outside the sources at hand; a
  tensor has one data pointer, which both accessors return.
\<close>

definition mut_dptr :: "Blob \<Rightarrow> ptr" where
  "mut_dptr b = dptr b"

text \<open>
  \<open>xla::XlaBuilder::InputOutputAlias\<close>; a \<open>ShapeIndex\<close> is a sequence of 64-bit
  integers.
\<close>

record InputOutputAlias =
  output_index :: "int list"
  param_number :: int
  param_index :: "int list"

text \<open>
  \<open>mola::LaunchAttrHelper\<close> is declared outside the sources at hand: its two queries are
  parameters.
\<close>

record LaunchAttrHelper =
  IsMutableArg :: "string \<Rightarrow> bool"
  OutputArg :: "string \<Rightarrow> string"

text \<open>
  \<open>static_cast<int>\<close> of a \<open>size_t\<close>: the value modulo \<open>2^32\<close>, read as signed. The loop
  counters of the source are \<open>int\<close>s compared with sizes; they are natural numbers
  here, which is what they are as long as the sizes fit an \<open>int\<close>.
\<close>

definition static_cast_int :: "nat \<Rightarrow> int" where
  "static_cast_int n = (int n + 2 ^ 31) mod 2 ^ 32 - 2 ^ 31"

subsection \<open>AliasMutableInputsAndOutputs\<close>

text \<open>
  The five vectors the function is handed: the first two by const reference, the last
  three through pointers it pushes onto.
\<close>

record alias_args =
  entry_blobs :: "Blob list"
  entry_blob_names :: "string list"
  return_blobs :: "Blob list"
  return_blob_names :: "string list"
  aliases :: "InputOutputAlias list"

text \<open>The loop of lines 141 to 149, from index \<open>i\<close> on.\<close>

function alias_loop :: "LaunchAttrHelper \<Rightarrow> nat \<Rightarrow> alias_args \<Rightarrow> alias_args" where
  "alias_loop attr i s =
     (if i < length (entry_blobs s) then
        (let entry_name = entry_blob_names s ! i in
         if IsMutableArg attr entry_name then
           alias_loop attr (Suc i)
             (s\<lparr>aliases := aliases s @
                   [\<lparr>output_index = [static_cast_int (length (return_blobs s))],
                     param_number = int i, param_index = []\<rparr>],
                return_blobs := return_blobs s @ [entry_blobs s ! i],
                return_blob_names := return_blob_names s @ [OutputArg attr entry_name]\<rparr>)
         else alias_loop attr (Suc i) s)
      else s)"
  by pat_completeness auto
termination
  by (relation "measure (\<lambda>(attr, i, s). length (entry_blobs s) - i)") auto

declare alias_loop.simps [simp del]

definition AliasMutableInputsAndOutputs ::
    "LaunchAttrHelper \<Rightarrow> alias_args \<Rightarrow> error + alias_args" where
  "AliasMutableInputsAndOutputs attr s =
     (if length (entry_blobs s) \<noteq> length (entry_blob_names s)
      then Inl EntryNamesSizeMismatch
      else Inr (alias_loop attr 0 s))"

subsection \<open>Shapes, buffers and the launch context\<close>

text \<open>\<open>xla::Shape\<close>: an array shape (its dimensions) or a tuple of shapes.\<close>

datatype Shape = ArrayShape "nat list" | TupleShape "Shape list"

fun IsTuple :: "Shape \<Rightarrow> bool" where
  "IsTuple (TupleShape ts) = True"
| "IsTuple (ArrayShape ds) = False"

text \<open>\<open>se::DeviceMemoryBase\<close>: an address and a byte count.\<close>

record DeviceMemoryBase =
  opaque :: ptr
  byte_size :: nat

text \<open>
  \<open>xla::ShapedBuffer\<close> (and \<open>ScopedShapedBuffer\<close>, which derives from it): the two
  shapes, the platform, the device ordinal, and one \<open>DeviceMemoryBase\<close> per
  \<open>ShapeIndex\<close>; \<open>buffer(index)\<close> reads \<open>buffers\<close>, \<open>set_buffer\<close> updates it.
\<close>

record ShapedBuffer =
  on_host_shape :: Shape
  on_device_shape :: Shape
  buffer_platform :: nat
  buffer_device_ordinal :: int
  buffers :: "int list \<Rightarrow> DeviceMemoryBase"

definition set_buffer :: "DeviceMemoryBase \<Rightarrow> int list \<Rightarrow> ShapedBuffer \<Rightarrow> ShapedBuffer" where
  "set_buffer b index sb = sb\<lparr>buffers := (buffers sb)(index := b)\<rparr>"

text \<open>A freshly constructed \<open>ShapedBuffer\<close> holds null buffers everywhere.\<close>

definition new_ShapedBuffer :: "Shape \<Rightarrow> Shape \<Rightarrow> nat \<Rightarrow> int \<Rightarrow> ShapedBuffer" where
  "new_ShapedBuffer host_shape device_shape pf ordinal =
     \<lparr>on_host_shape = host_shape, on_device_shape = device_shape,
      buffer_platform = pf, buffer_device_ordinal = ordinal,
      buffers = (\<lambda>index. \<lparr>opaque = 0, byte_size = 0\<rparr>)\<rparr>"

text \<open>
  \<open>mola::XlaLaunchContext\<close>, through the accessors this file calls; the stream, the
  allocator, the thread pool and the client's platform are handles.
\<close>

record XlaLaunchContext =
  device_ordinal :: int
  builder_name :: string
  client_platform :: nat
  stream :: nat
  allocator :: nat
  host_device :: nat

record ExecutableRunOptions =
  run_stream :: nat
  run_allocator :: nat
  run_intra_op_thread_pool :: nat
  run_rng_seed :: nat

text \<open>\<open>mola::CompilationResult\<close>; the executable is a handle.\<close>

record CompilationResult =
  executable :: nat
  xla_input_shapes :: "Shape list"
  xla_output_shape :: Shape

text \<open>
  \<open>DeviceType\<close> is declared outside the sources at hand. The source names \<open>kGPU\<close> and
  treats every other device type alike; its comment on line 196 names the CPU.
\<close>

datatype DeviceType = kCPU | kGPU

text \<open>What the kernel reads of itself: its device type, \<open>op_conf()\<close> and \<open>op_attribute()\<close>.\<close>

record XlaLaunchKernel =
  device_type :: DeviceType
  op_name :: string
  has_xla_launch_conf :: bool
  launch_attr :: LaunchAttrHelper
  input_bns :: "string list"
  output_bns :: "string list"
  BnInOp2BlobName :: "string \<Rightarrow> string"   \<comment> \<open>\<open>BlobName(BnInOp2Lbi(bn))\<close>\<close>

subsection \<open>The world: cache, memory, and the calls made\<close>

text \<open>
  The calls to collaborators, in the order made. \<open>'s\<close> is the type of signatures.
\<close>

datatype 's event =
    Call_AliasMutableInputsAndOutputs
  | Call_GetRecord 's
  | Call_Compile
  | Call_Record 's
  | Call_PopulateResultBuffers "Blob list" "int list"
  | Call_RunAsync nat "ShapedBuffer list" ExecutableRunOptions
  | Call_BlockHostUntilDone nat

text \<open>
  Modelled from the spec: \<open>mola::XlaCompilationCache\<close> is declared outside the sources at
  hand.  It is a map from signatures to artifacts; \<open>GetRecord\<close> is a pure lookup (no
  artifact is \<open>nullptr\<close>, here \<open>None\<close>), \<open>Record\<close> inserts or overwrites.
\<close>

type_synonym 's XlaCompilationCache = "'s \<rightharpoonup> CompilationResult"

definition GetRecord :: "'s XlaCompilationCache \<Rightarrow> 's \<Rightarrow> CompilationResult option" where
  "GetRecord cache signature = cache signature"

definition Record ::
    "'s \<Rightarrow> CompilationResult \<Rightarrow> 's XlaCompilationCache \<Rightarrow> 's XlaCompilationCache" where
  "Record signature result cache = cache(signature \<mapsto> result)"

record 's world =
  compilation_cache :: "'s XlaCompilationCache option"   \<comment> \<open>the kernel's mutable member\<close>
  memory :: "ptr \<Rightarrow> nat"
  trace :: "'s event list"

definition log :: "'s event \<Rightarrow> 's world \<Rightarrow> 's world" where
  "log e w = w\<lparr>trace := trace w @ [e]\<rparr>"

text \<open>
  The collaborators declared outside the sources at hand, as parameters:
  \<open>mola::ComputeSignature\<close>, \<open>XlaGraphCompiler::Compile\<close> (on the graph of the kernel's
  launch configuration), the transfer manager's \<open>HostShapeToDeviceShape\<close>,
  \<open>LocalExecutable::RunAsync\<close> (which may fail, and whose executable writes memory),
  \<open>xla::ResultAllocationIndices\<close>, \<open>GetXLARandomSeed\<close> and the constructor of
  \<open>XlaLaunchContext\<close>.
\<close>

record 's env =
  ComputeSignature :: "string \<Rightarrow> int \<Rightarrow> Blob list \<Rightarrow> 's"
  Compile :: "XlaLaunchKernel \<Rightarrow> XlaLaunchContext \<Rightarrow> Blob list \<Rightarrow> Blob list \<Rightarrow>
              string list \<Rightarrow> string list \<Rightarrow> InputOutputAlias list \<Rightarrow> CompilationResult"
  HostShapeToDeviceShape :: "Shape \<Rightarrow> Shape"
  RunAsync :: "nat \<Rightarrow> ShapedBuffer list \<Rightarrow> ExecutableRunOptions \<Rightarrow> (ptr \<Rightarrow> nat) \<Rightarrow>
               (ShapedBuffer \<times> (ptr \<Rightarrow> nat)) option"
  ResultAllocationIndices :: "nat \<Rightarrow> int list"
  GetXLARandomSeed :: nat
  NewLaunchContext :: "string \<Rightarrow> nat \<Rightarrow> DeviceType \<Rightarrow> nat \<Rightarrow> XlaLaunchContext"

subsection \<open>BuildLocalExecutable\<close>

text \<open>
  Lines 23 to 50. \<open>compile_result0\<close> is the value of \<open>*compile_result\<close> on entry; the
  function returns its value on exit.
\<close>

definition BuildLocalExecutable ::
    "'s env \<Rightarrow> XlaLaunchKernel \<Rightarrow> XlaLaunchContext \<Rightarrow> Blob list \<Rightarrow> Blob list \<Rightarrow>
     string list \<Rightarrow> string list \<Rightarrow> InputOutputAlias list \<Rightarrow> CompilationResult option \<Rightarrow>
     's world \<Rightarrow> (error + CompilationResult option) \<times> 's world" where
  "BuildLocalExecutable env k launch_ctx entry_blobs' return_blobs' entry_blob_names'
       return_blob_names' aliases' compile_result0 w =
     (let cache0 = (case compilation_cache w of None \<Rightarrow> Map.empty | Some c \<Rightarrow> c);
          w0 = w\<lparr>compilation_cache := Some cache0\<rparr>;
          signature = ComputeSignature env (builder_name launch_ctx)
                        (device_ordinal launch_ctx) entry_blobs';
          force_compile = False;
          (compile_result, w1) =
            (if \<not> force_compile
             then (GetRecord cache0 signature, log (Call_GetRecord signature) w0)
             else (compile_result0, w0))
      in if compile_result = None then
           (if \<not> has_xla_launch_conf k then (Inl NeedXlaLaunchOpConf, w1)
            else
              let result = Compile env k launch_ctx entry_blobs' return_blobs'
                             entry_blob_names' return_blob_names' aliases';
                  w2 = log Call_Compile w1;
                  cache1 = Record signature result cache0;
                  w3 = log (Call_Record signature) (w2\<lparr>compilation_cache := Some cache1\<rparr>)
              in (Inr (GetRecord cache1 signature), log (Call_GetRecord signature) w3))
         else (Inr compile_result, w1))"

subsection \<open>LaunchExecutable\<close>

text \<open>Lines 73 to 94: the body of the input loop at index \<open>i\<close>.\<close>

definition translate_input ::
    "'s env \<Rightarrow> XlaLaunchContext \<Rightarrow> Blob list \<Rightarrow> Shape list \<Rightarrow> Blob list \<Rightarrow> nat \<Rightarrow>
     error + ShapedBuffer" where
  "translate_input env launch_ctx entry_blobs' input_shapes return_blobs' i =
     (let shape = input_shapes ! i;
          on_device_shape' = HostShapeToDeviceShape env shape
      in if IsTuple on_device_shape' then Inl TupleInputNotAllowed
         else
           let data_size = ByteSizeOfDataContentField (entry_blobs' ! i);
               data_ptr = dptr (entry_blobs' ! i);
               data_ptr = (if data_size > 0 \<and> data_ptr = 0
                           then dptr (return_blobs' ! 0) else data_ptr);
               memory_base = \<lparr>opaque = data_ptr, byte_size = data_size\<rparr>
           in Inr (set_buffer memory_base []
                     (new_ShapedBuffer shape shape (client_platform launch_ctx)
                        (device_ordinal launch_ctx))))"

text \<open>
  Lines 72 to 95: the input loop from index \<open>i\<close> on. The source sizes \<open>arguments\<close>
  beforehand and assigns slot \<open>i\<close> in iteration \<open>i\<close>; here the list grows by one element
  per iteration.
\<close>

function translate_inputs ::
    "'s env \<Rightarrow> XlaLaunchContext \<Rightarrow> Blob list \<Rightarrow> Shape list \<Rightarrow> Blob list \<Rightarrow> nat \<Rightarrow>
     ShapedBuffer list \<Rightarrow> error + ShapedBuffer list" where
  "translate_inputs env launch_ctx entry_blobs' input_shapes return_blobs' i arguments =
     (if i < length input_shapes then
        (case translate_input env launch_ctx entry_blobs' input_shapes return_blobs' i of
           Inl e \<Rightarrow> Inl e
         | Inr shaped_buffer \<Rightarrow>
             translate_inputs env launch_ctx entry_blobs' input_shapes return_blobs' (Suc i)
               (arguments @ [shaped_buffer]))
      else Inr arguments)"
  by pat_completeness auto
termination
  by (relation "measure (\<lambda>(env, launch_ctx, eb, input_shapes, rb, i, arguments).
                           length input_shapes - i)") auto

declare translate_inputs.simps [simp del]

text \<open>
  Lines 97 to 111: the run options, \<open>RunAsync\<close>, and the wait on the stream when asked
  for. The status of the run is looked at by the caller, after the wait. The scope
  object of line 98 (\<open>mola::XlaLaunchScope\<close>, declared outside the sources at hand) is
  left out.
\<close>

definition run_executable ::
    "'s env \<Rightarrow> XlaLaunchContext \<Rightarrow> nat \<Rightarrow> ShapedBuffer list \<Rightarrow> bool \<Rightarrow> 's world \<Rightarrow>
     ShapedBuffer option \<times> 's world" where
  "run_executable env launch_ctx executable' arguments block_host_until_done w =
     (let run_options = \<lparr>run_stream = stream launch_ctx,
                         run_allocator = allocator launch_ctx,
                         run_intra_op_thread_pool = host_device launch_ctx,
                         run_rng_seed = GetXLARandomSeed env\<rparr>;
          result = RunAsync env executable' arguments run_options (memory w);
          w1 = log (Call_RunAsync executable' arguments run_options)
                 (w\<lparr>memory := (case result of None \<Rightarrow> memory w | Some (b, m) \<Rightarrow> m)\<rparr>);
          w2 = (if block_host_until_done
                then log (Call_BlockHostUntilDone (stream launch_ctx)) w1 else w1)
      in (map_option fst result, w2))"

text \<open>Lines 117 to 129: the result loop from index \<open>i\<close> on.\<close>

function translate_results ::
    "Blob list \<Rightarrow> ShapedBuffer \<Rightarrow> nat \<Rightarrow> 's world \<Rightarrow> (error + unit) \<times> 's world" where
  "translate_results return_blobs' run_result i w =
     (if i < length return_blobs' then
        (let output = return_blobs' ! i;
             buffer = buffers run_result [int i]
         in if opaque buffer \<noteq> 0 then
              (if opaque buffer \<noteq> mut_dptr output then (Inl ResultBufferMismatch, w)
               else translate_results return_blobs' run_result (Suc i) w)
            else translate_results return_blobs' run_result (Suc i) w)
      else (Inr (), w))"
  by pat_completeness auto
termination
  by (relation "measure (\<lambda>(rb, run_result, i, w). length rb - i)") auto

declare translate_results.simps [simp del]

definition LaunchExecutable ::
    "'s env \<Rightarrow> XlaLaunchContext \<Rightarrow> nat \<Rightarrow> Blob list \<Rightarrow> Shape list \<Rightarrow> Blob list \<Rightarrow> Shape \<Rightarrow>
     bool \<Rightarrow> 's world \<Rightarrow> (error + unit) \<times> 's world" where
  "LaunchExecutable env launch_ctx executable' entry_blobs' input_shapes return_blobs'
       output_shape block_host_until_done w =
     (if length entry_blobs' \<noteq> length input_shapes then (Inl InputShapesSizeMismatch, w)
      else if \<not> length return_blobs' > 0 then (Inl NeedOneRealOutput, w)
      else
        (case translate_inputs env launch_ctx entry_blobs' input_shapes return_blobs' 0 [] of
           Inl e \<Rightarrow> (Inl e, w)
         | Inr arguments \<Rightarrow>
             (case run_executable env launch_ctx executable' arguments
                     block_host_until_done w of
                (None, w1) \<Rightarrow> (Inl RunFailed, w1)
              | (Some run_result, w1) \<Rightarrow>
                  if \<not> IsTuple (on_host_shape run_result)
                  then (Inl ResultShapeNotTuple, w1)
                  else translate_results return_blobs' run_result 0 w1)))"

subsection \<open>ForwardDataContent\<close>

text \<open>Lines 157 to 169 and 174: the four vectors read off the kernel, and no alias yet.\<close>

definition prepare_blobs :: "XlaLaunchKernel \<Rightarrow> (string \<Rightarrow> Blob) \<Rightarrow> alias_args" where
  "prepare_blobs k BnInOp2Blob =
     \<lparr>entry_blobs = map BnInOp2Blob (input_bns k),
      entry_blob_names = map (BnInOp2BlobName k) (input_bns k),
      return_blobs = map BnInOp2Blob (output_bns k),
      return_blob_names = output_bns k,
      aliases = []\<rparr>"

text \<open>
  Lines 186 to 203: what is done with the compiled artifact \<open>cr\<close> once
  \<open>CHECK(compile_result)\<close> has passed.
\<close>

definition launch_compiled ::
    "'s env \<Rightarrow> XlaLaunchKernel \<Rightarrow> XlaLaunchContext \<Rightarrow> alias_args \<Rightarrow> CompilationResult \<Rightarrow>
     's world \<Rightarrow> (error + unit) \<times> 's world" where
  "launch_compiled env k launch_ctx args cr w =
     (let executable' = executable cr;
          allocation_indices = ResultAllocationIndices env executable'
      in if length (return_blobs args) \<noteq> length allocation_indices
         then (Inl AllocationIndicesSizeMismatch, w)
         else
           let w1 = log (Call_PopulateResultBuffers (return_blobs args) allocation_indices) w;
               block_host_until_done = True;
               block_host_until_done =
                 (if device_type k = kGPU then False else block_host_until_done)
           in LaunchExecutable env launch_ctx executable' (entry_blobs args)
                (xla_input_shapes cr) (return_blobs args) (xla_output_shape cr)
                block_host_until_done w1)"

definition ForwardDataContent ::
    "'s env \<Rightarrow> XlaLaunchKernel \<Rightarrow> nat \<Rightarrow> (string \<Rightarrow> Blob) \<Rightarrow> 's world \<Rightarrow>
     (error + unit) \<times> 's world" where
  "ForwardDataContent env k device_ctx BnInOp2Blob w =
     (let args0 = prepare_blobs k BnInOp2Blob
      in if \<not> has_xla_launch_conf k then (Inl NeedXlaLaunchOpConf, w)
         else
           let w1 = log Call_AliasMutableInputsAndOutputs w
           in (case AliasMutableInputsAndOutputs (launch_attr k) args0 of
                 Inl e \<Rightarrow> (Inl e, w1)
               | Inr args \<Rightarrow>
                   let launch_ctx = NewLaunchContext env (op_name k) device_ctx
                                      (device_type k) 1
                   in (case BuildLocalExecutable env k launch_ctx (entry_blobs args)
                              (return_blobs args) (entry_blob_names args)
                              (return_blob_names args) (aliases args) None w1 of
                         (Inl e, w2) \<Rightarrow> (Inl e, w2)
                       | (Inr None, w2) \<Rightarrow> (Inl ExecutableBuiltFailed, w2)
                       | (Inr (Some cr), w2) \<Rightarrow>
                           launch_compiled env k launch_ctx args cr w2)))"

subsection \<open>An example kernel\<close>

text \<open>
  A launch unit \<open>add1\<close> with one input and one output, no mutable argument, and
  collaborators that compile anything and run by handing back, at result slot 0, a
  buffer at the address \<open>p_out\<close>. A signature is the builder's name, the device ordinal
  and the byte sizes of the entries. The input blob's data pointer is \<open>p_in\<close>, the output
  blob's is \<open>64\<close>.
\<close>

type_synonym example_signature = "string \<times> int \<times> nat list"

definition example_env :: "ptr \<Rightarrow> example_signature env" where
  "example_env p_out =
     \<lparr>ComputeSignature =
        (\<lambda>name ordinal blobs. (name, ordinal, map ByteSizeOfDataContentField blobs)),
      Compile = (\<lambda>k launch_ctx eb rb ebn rbn al.
        \<lparr>executable = 7,
         xla_input_shapes = map (\<lambda>b. ArrayShape [ByteSizeOfDataContentField b]) eb,
         xla_output_shape =
           TupleShape (map (\<lambda>b. ArrayShape [ByteSizeOfDataContentField b]) rb)\<rparr>),
      HostShapeToDeviceShape = (\<lambda>shape. shape),
      RunAsync = (\<lambda>exe arguments run_options mem.
        Some (set_buffer \<lparr>opaque = p_out, byte_size = 16\<rparr> [0]
                (new_ShapedBuffer (TupleShape [ArrayShape [16]])
                   (TupleShape [ArrayShape [16]]) 0 0),
              mem(p_out := 1))),
      ResultAllocationIndices = (\<lambda>exe. [0]),
      GetXLARandomSeed = 42,
      NewLaunchContext = (\<lambda>name device_ctx dt n.
        \<lparr>device_ordinal = 0, builder_name = name, client_platform = 0,
         stream = device_ctx, allocator = 1, host_device = n\<rparr>)\<rparr>"

definition example_kernel :: "DeviceType \<Rightarrow> XlaLaunchKernel" where
  "example_kernel dt =
     \<lparr>device_type = dt, op_name = ''add1'', has_xla_launch_conf = True,
      launch_attr = \<lparr>IsMutableArg = (\<lambda>n. False), OutputArg = (\<lambda>n. n)\<rparr>,
      input_bns = [''in_0''], output_bns = [''out_0''],
      BnInOp2BlobName = (\<lambda>bn. bn)\<rparr>"

definition example_blobs :: "ptr \<Rightarrow> string \<Rightarrow> Blob" where
  "example_blobs p_in bn =
     (if bn = ''in_0'' then \<lparr>dptr = p_in, ByteSizeOfDataContentField = 16\<rparr>
      else \<lparr>dptr = 64, ByteSizeOfDataContentField = 16\<rparr>)"

definition example_launch_ctx :: XlaLaunchContext where
  "example_launch_ctx =
     \<lparr>device_ordinal = 0, builder_name = ''add1'', client_platform = 0,
      stream = 3, allocator = 1, host_device = 1\<rparr>"

definition example_world :: "example_signature world" where
  "example_world = \<lparr>compilation_cache = None, memory = (\<lambda>a. 0), trace = []\<rparr>"

text \<open>The example world after a first invocation has recorded its artifact.\<close>

definition example_warm_world :: "example_signature world" where
  "example_warm_world =
     \<lparr>compilation_cache =
        Some (Record (''add1'', 0, [16])
                \<lparr>executable = 7, xla_input_shapes = [ArrayShape [16]],
                 xla_output_shape = TupleShape [ArrayShape [16]]\<rparr> Map.empty),
      memory = (\<lambda>a. 0), trace = []\<rparr>"

section \<open>Properties\<close>

subsection \<open>Alias resolution\<close>

text \<open>Within the range of \<open>int\<close> the cast of a size is the size.\<close>

lemma static_cast_int_id: "n < 2 ^ 31 \<Longrightarrow> static_cast_int n = int n"
  by (simp add: static_cast_int_def)

text \<open>
  The loop in closed form: with \<open>J\<close> the indices from \<open>i\<close> on whose entry name is
  declared mutable, in increasing order, the loop appends one element per member of
  \<open>J\<close> to each of the three output vectors and changes nothing else.
\<close>

lemma alias_loop_eq:
  "alias_loop attr i s =
     (let J = filter (\<lambda>j. IsMutableArg attr (entry_blob_names s ! j)) [i..<length (entry_blobs s)] in
      s\<lparr>aliases := aliases s @
            map (\<lambda>k. \<lparr>output_index = [static_cast_int (length (return_blobs s) + k)],
                      param_number = int (J ! k), param_index = []\<rparr>) [0..<length J],
         return_blobs := return_blobs s @ map (\<lambda>j. entry_blobs s ! j) J,
         return_blob_names := return_blob_names s @
            map (\<lambda>j. OutputArg attr (entry_blob_names s ! j)) J\<rparr>)"
proof (induction attr i s rule: alias_loop.induct)
  case (1 attr i s)
  show ?case
  proof (cases "i < length (entry_blobs s)")
    case False
    then show ?thesis by (subst alias_loop.simps) simp
  next
    case lt: True
    show ?thesis
    proof (cases "IsMutableArg attr (entry_blob_names s ! i)")
      case True
      show ?thesis
        apply (subst alias_loop.simps)
        using lt True 1(1)[OF lt refl True]
        apply (simp add: Let_def upt_conv_Cons del: upt_Suc)
        apply (simp add: map_Suc_upt[symmetric] del: upt_Suc)
        done
    next
      case False
      show ?thesis
        apply (subst alias_loop.simps)
        using lt False 1(2)[OF lt refl False]
        apply (simp add: Let_def upt_conv_Cons del: upt_Suc)
        done
    qed
  qed
qed

text \<open>
  Claim C2. Let the entry list and the entry-name list have the same length (the
  function's own \<open>CHECK_EQ\<close>) and let the sizes fit the \<open>int\<close> that the source casts them
  to. Let \<open>J\<close> be the indices of the entries whose name is declared mutable, in entry-list
  order. Then the function returns, and what it appends is exactly: the tensors of the
  entries in \<open>J\<close> to the return list, their declared output names to the return-name
  list, and for the \<open>k\<close>-th member of \<open>J\<close> one alias entry whose input slot is that
  entry's index and whose output slot is the number of return tensors before the call
  plus \<open>k\<close>, which is the number of return tensors present when the entry is appended.
  An entry not declared mutable is not in \<open>J\<close> and contributes nothing. The witness is
  the spec's example: entries \<open>a, b, c\<close>, only \<open>b\<close> mutable with output name \<open>b_out\<close>, two
  return tensors present beforehand.
\<close>

theorem alias_resolution_in_entry_order:
  assumes "length (entry_blobs s) = length (entry_blob_names s)"
    and "length (return_blobs s) + length (entry_blobs s) < 2 ^ 31"
    and "J = filter (\<lambda>i. IsMutableArg attr (entry_blob_names s ! i))
               [0..<length (entry_blobs s)]"
  shows "AliasMutableInputsAndOutputs attr s =
           Inr (s\<lparr>return_blobs := return_blobs s @ map (\<lambda>i. entry_blobs s ! i) J,
                  return_blob_names := return_blob_names s @
                     map (\<lambda>i. OutputArg attr (entry_blob_names s ! i)) J,
                  aliases := aliases s @
                     map (\<lambda>k. \<lparr>output_index = [int (length (return_blobs s) + k)],
                               param_number = int (J ! k), param_index = []\<rparr>)
                       [0..<length J]\<rparr>)"
proof -
  have "length J \<le> length (entry_blobs s)"
    using length_filter_le[of _ "[0..<length (entry_blobs s)]"] by (simp add: assms(3))
  then have "\<And>k. k < length J \<Longrightarrow>
        static_cast_int (length (return_blobs s) + k) = int (length (return_blobs s) + k)"
    using assms(2) by (intro static_cast_int_id) linarith
  then have "map (\<lambda>k. \<lparr>output_index = [static_cast_int (length (return_blobs s) + k)],
                      param_number = int (J ! k), param_index = []\<rparr>) [0..<length J] =
             map (\<lambda>k. \<lparr>output_index = [int (length (return_blobs s) + k)],
                      param_number = int (J ! k), param_index = []\<rparr>) [0..<length J]"
    by simp
  then show ?thesis
    using assms(1) unfolding AliasMutableInputsAndOutputs_def alias_loop_eq Let_def assms(3)[symmetric]
    by simp
qed

theorem alias_resolution_in_entry_order_witness:
  "AliasMutableInputsAndOutputs
     \<lparr>IsMutableArg = (\<lambda>n. n = ''b''), OutputArg = (\<lambda>n. n @ ''_out'')\<rparr>
     \<lparr>entry_blobs = [\<lparr>dptr = 16, ByteSizeOfDataContentField = 4\<rparr>,
                     \<lparr>dptr = 32, ByteSizeOfDataContentField = 8\<rparr>,
                     \<lparr>dptr = 48, ByteSizeOfDataContentField = 4\<rparr>],
      entry_blob_names = [''a'', ''b'', ''c''],
      return_blobs = [\<lparr>dptr = 64, ByteSizeOfDataContentField = 4\<rparr>,
                      \<lparr>dptr = 80, ByteSizeOfDataContentField = 4\<rparr>],
      return_blob_names = [''out_0'', ''out_1''],
      aliases = []\<rparr> =
   Inr \<lparr>entry_blobs = [\<lparr>dptr = 16, ByteSizeOfDataContentField = 4\<rparr>,
                        \<lparr>dptr = 32, ByteSizeOfDataContentField = 8\<rparr>,
                        \<lparr>dptr = 48, ByteSizeOfDataContentField = 4\<rparr>],
        entry_blob_names = [''a'', ''b'', ''c''],
        return_blobs = [\<lparr>dptr = 64, ByteSizeOfDataContentField = 4\<rparr>,
                        \<lparr>dptr = 80, ByteSizeOfDataContentField = 4\<rparr>,
                        \<lparr>dptr = 32, ByteSizeOfDataContentField = 8\<rparr>],
        return_blob_names = [''out_0'', ''out_1'', ''b_out''],
        aliases = [\<lparr>output_index = [2], param_number = 1, param_index = []\<rparr>]\<rparr>"
  using alias_resolution_in_entry_order
    [of "\<lparr>entry_blobs = [\<lparr>dptr = 16, ByteSizeOfDataContentField = 4\<rparr>,
                     \<lparr>dptr = 32, ByteSizeOfDataContentField = 8\<rparr>,
                     \<lparr>dptr = 48, ByteSizeOfDataContentField = 4\<rparr>],
      entry_blob_names = [''a'', ''b'', ''c''],
      return_blobs = [\<lparr>dptr = 64, ByteSizeOfDataContentField = 4\<rparr>,
                      \<lparr>dptr = 80, ByteSizeOfDataContentField = 4\<rparr>],
      return_blob_names = [''out_0'', ''out_1''],
      aliases = []\<rparr>" "[1]" "\<lparr>IsMutableArg = (\<lambda>n. n = ''b''), OutputArg = (\<lambda>n. n @ ''_out'')\<rparr>"]
  by (simp add: upt_conv_Cons)

text \<open>
  Claim C9. When the function returns, the entry list and the entry-name list are as
  they were, and each of the return list, the return-name list and the alias list has
  its old value as a prefix: every old element is still there, unmodified, at its old
  index, and new elements come after.
\<close>

theorem alias_append_only:
  assumes "AliasMutableInputsAndOutputs attr s = Inr s'"
  shows "entry_blobs s' = entry_blobs s \<and> entry_blob_names s' = entry_blob_names s \<and>
         prefix (return_blobs s) (return_blobs s') \<and>
         prefix (return_blob_names s) (return_blob_names s') \<and>
         prefix (aliases s) (aliases s')"
  using assms unfolding AliasMutableInputsAndOutputs_def alias_loop_eq Let_def
  by (auto split: if_splits)

theorem alias_append_only_witness:
  "entry_blob_names (alias_loop \<lparr>IsMutableArg = (\<lambda>n. n = ''b''), OutputArg = (\<lambda>n. n @ ''_out'')\<rparr> 0 
     \<lparr>entry_blobs = [\<lparr>dptr = 16, ByteSizeOfDataContentField = 4\<rparr>,
                     \<lparr>dptr = 32, ByteSizeOfDataContentField = 8\<rparr>],
      entry_blob_names = [''a'', ''b''],
      return_blobs = [\<lparr>dptr = 64, ByteSizeOfDataContentField = 4\<rparr>],
      return_blob_names = [''out_0''],
      aliases = []\<rparr>) = [''a'', ''b''] \<and>
   prefix [''out_0''] (return_blob_names (alias_loop \<lparr>IsMutableArg = (\<lambda>n. n = ''b''), OutputArg = (\<lambda>n. n @ ''_out'')\<rparr> 0 
     \<lparr>entry_blobs = [\<lparr>dptr = 16, ByteSizeOfDataContentField = 4\<rparr>,
                     \<lparr>dptr = 32, ByteSizeOfDataContentField = 8\<rparr>],
      entry_blob_names = [''a'', ''b''],
      return_blobs = [\<lparr>dptr = 64, ByteSizeOfDataContentField = 4\<rparr>],
      return_blob_names = [''out_0''],
      aliases = []\<rparr>))"
  using alias_append_only
    [of "\<lparr>IsMutableArg = (\<lambda>n. n = ''b''), OutputArg = (\<lambda>n. n @ ''_out'')\<rparr>"
     "\<lparr>entry_blobs = [\<lparr>dptr = 16, ByteSizeOfDataContentField = 4\<rparr>,
                     \<lparr>dptr = 32, ByteSizeOfDataContentField = 8\<rparr>],
      entry_blob_names = [''a'', ''b''],
      return_blobs = [\<lparr>dptr = 64, ByteSizeOfDataContentField = 4\<rparr>],
      return_blob_names = [''out_0''],
      aliases = []\<rparr>"
     "alias_loop \<lparr>IsMutableArg = (\<lambda>n. n = ''b''), OutputArg = (\<lambda>n. n @ ''_out'')\<rparr> 0 
     \<lparr>entry_blobs = [\<lparr>dptr = 16, ByteSizeOfDataContentField = 4\<rparr>,
                     \<lparr>dptr = 32, ByteSizeOfDataContentField = 8\<rparr>],
      entry_blob_names = [''a'', ''b''],
      return_blobs = [\<lparr>dptr = 64, ByteSizeOfDataContentField = 4\<rparr>],
      return_blob_names = [''out_0''],
      aliases = []\<rparr>"]
  by (simp add: AliasMutableInputsAndOutputs_def)

subsection \<open>Compile on miss\<close>

text \<open>
  Claim C1. What \<open>BuildLocalExecutable\<close> does is fixed by its input. On a miss (the
  lookup of the computed signature in the kernel's cache, or in a fresh one, gives no
  artifact) of a kernel with a launch configuration, it returns normally; the calls
  made are, in order, the lookup, the compilation, the recording and a second lookup;
  the cache afterwards is the old one with the compiled artifact recorded under the
  signature; and the result is what the second lookup gives, which is that artifact.
  On a miss without a launch configuration it fails after the lookup. On a hit it
  returns what the lookup gave, the cache as it was. Hence whenever it returns, the
  \<open>compile_result\<close> handed back is what \<open>GetRecord\<close> gives for the signature in the
  kernel's cache. The witness is a miss in a cache that already holds another artifact.
\<close>

theorem build_result_is_cache_copy:
  assumes "signature = ComputeSignature env (builder_name launch_ctx)
                         (device_ordinal launch_ctx) eb"
    and "cache0 = (case compilation_cache w of None \<Rightarrow> Map.empty | Some c \<Rightarrow> c)"
    and "result = Compile env k launch_ctx eb rb ebn rbn al"
    and "cache1 = Record signature result cache0"
  shows "(GetRecord cache0 signature = None \<and> has_xla_launch_conf k \<longrightarrow>
            BuildLocalExecutable env k launch_ctx eb rb ebn rbn al compile_result0 w =
              (Inr (GetRecord cache1 signature),
               w\<lparr>compilation_cache := Some cache1,
                 trace := trace w @ [Call_GetRecord signature, Call_Compile,
                                     Call_Record signature, Call_GetRecord signature]\<rparr>) \<and>
            GetRecord cache1 signature = Some result) \<and>
         (GetRecord cache0 signature = None \<and> \<not> has_xla_launch_conf k \<longrightarrow>
            BuildLocalExecutable env k launch_ctx eb rb ebn rbn al compile_result0 w =
              (Inl NeedXlaLaunchOpConf,
               w\<lparr>compilation_cache := Some cache0,
                 trace := trace w @ [Call_GetRecord signature]\<rparr>)) \<and>
         (GetRecord cache0 signature \<noteq> None \<longrightarrow>
            BuildLocalExecutable env k launch_ctx eb rb ebn rbn al compile_result0 w =
              (Inr (GetRecord cache0 signature),
               w\<lparr>compilation_cache := Some cache0,
                 trace := trace w @ [Call_GetRecord signature]\<rparr>)) \<and>
         (\<forall>compile_result w'.
            BuildLocalExecutable env k launch_ctx eb rb ebn rbn al compile_result0 w =
              (Inr compile_result, w') \<longrightarrow>
            (\<exists>cache'. compilation_cache w' = Some cache' \<and>
                       compile_result = GetRecord cache' signature))"
proof -
  let ?b = "BuildLocalExecutable env k launch_ctx eb rb ebn rbn al compile_result0 w"
  have miss: "?b = (Inr (GetRecord cache1 signature),
               w\<lparr>compilation_cache := Some cache1,
                 trace := trace w @ [Call_GetRecord signature, Call_Compile,
                                     Call_Record signature, Call_GetRecord signature]\<rparr>)"
    if "GetRecord cache0 signature = None" "has_xla_launch_conf k"
    using that
    unfolding BuildLocalExecutable_def Let_def assms(1)[symmetric] assms(2)[symmetric]
      assms(3)[symmetric] assms(4)[symmetric]
    by (simp add: log_def)
  have fetched: "GetRecord cache1 signature = Some result"
    by (simp add: assms(4) GetRecord_def Record_def)
  have noconf: "?b = (Inl NeedXlaLaunchOpConf,
               w\<lparr>compilation_cache := Some cache0,
                 trace := trace w @ [Call_GetRecord signature]\<rparr>)"
    if "GetRecord cache0 signature = None" "\<not> has_xla_launch_conf k"
    using that
    unfolding BuildLocalExecutable_def Let_def assms(1)[symmetric] assms(2)[symmetric]
    by (simp add: log_def)
  have hit: "?b = (Inr (GetRecord cache0 signature),
               w\<lparr>compilation_cache := Some cache0,
                 trace := trace w @ [Call_GetRecord signature]\<rparr>)"
    if "GetRecord cache0 signature \<noteq> None"
  proof -
    from that obtain cr where cr: "GetRecord cache0 signature = Some cr" by auto
    show ?thesis
      unfolding BuildLocalExecutable_def Let_def assms(1)[symmetric] assms(2)[symmetric]
      by (simp add: log_def cr)
  qed
  have copy: "\<exists>cache'. compilation_cache w' = Some cache' \<and>
                        compile_result = GetRecord cache' signature"
    if r: "?b = (Inr compile_result, w')" for compile_result w'
  proof (cases "GetRecord cache0 signature = None")
    case False
    from hit[OF False] r show ?thesis by auto
  next
    case True
    show ?thesis
    proof (cases "has_xla_launch_conf k")
      case conf: True
      from miss[OF True conf] r show ?thesis by auto
    next
      case False
      from noconf[OF True False] r show ?thesis by simp
    qed
  qed
  show ?thesis
    using miss fetched noconf hit copy by blast
qed

theorem build_result_is_cache_copy_witness:
  "fst (BuildLocalExecutable (example_env 64) (example_kernel kCPU) example_launch_ctx
          [\<lparr>dptr = 16, ByteSizeOfDataContentField = 32\<rparr>] [example_blobs 16 ''out_0'']
          [''in_0''] [''out_0''] [] None example_warm_world) =
     Inr (Some \<lparr>executable = 7, xla_input_shapes = [ArrayShape [32]],
                xla_output_shape = TupleShape [ArrayShape [16]]\<rparr>) \<and>
   trace (snd (BuildLocalExecutable (example_env 64) (example_kernel kCPU) example_launch_ctx
          [\<lparr>dptr = 16, ByteSizeOfDataContentField = 32\<rparr>] [example_blobs 16 ''out_0'']
          [''in_0''] [''out_0''] [] None example_warm_world)) =
     [Call_GetRecord (''add1'', 0, [32]), Call_Compile,
      Call_Record (''add1'', 0, [32]), Call_GetRecord (''add1'', 0, [32])] \<and>
   GetRecord (the (compilation_cache (snd (BuildLocalExecutable (example_env 64)
          (example_kernel kCPU) example_launch_ctx
          [\<lparr>dptr = 16, ByteSizeOfDataContentField = 32\<rparr>] [example_blobs 16 ''out_0'']
          [''in_0''] [''out_0''] [] None example_warm_world)))) (''add1'', 0, [32]) =
     Some \<lparr>executable = 7, xla_input_shapes = [ArrayShape [32]],
           xla_output_shape = TupleShape [ArrayShape [16]]\<rparr> \<and>
   GetRecord (the (compilation_cache (snd (BuildLocalExecutable (example_env 64)
          (example_kernel kCPU) example_launch_ctx
          [\<lparr>dptr = 16, ByteSizeOfDataContentField = 32\<rparr>] [example_blobs 16 ''out_0'']
          [''in_0''] [''out_0''] [] None example_warm_world)))) (''add1'', 0, [16]) =
     Some \<lparr>executable = 7, xla_input_shapes = [ArrayShape [16]],
           xla_output_shape = TupleShape [ArrayShape [16]]\<rparr>"
proof -
  let ?eb = "[\<lparr>dptr = 16, ByteSizeOfDataContentField = 32\<rparr>]"
  let ?cr16 = "\<lparr>executable = 7, xla_input_shapes = [ArrayShape [16]],
                xla_output_shape = TupleShape [ArrayShape [16]]\<rparr>"
  let ?cr32 = "\<lparr>executable = 7, xla_input_shapes = [ArrayShape [32]],
                xla_output_shape = TupleShape [ArrayShape [16]]\<rparr>"
  let ?c0 = "Record (''add1'', 0, [16]) ?cr16 Map.empty :: example_signature XlaCompilationCache"
  have p1: "(''add1'', 0, [32]) =
      ComputeSignature (example_env 64) (builder_name example_launch_ctx)
        (device_ordinal example_launch_ctx) ?eb"
    by (simp add: example_env_def example_launch_ctx_def)
  have p2: "?c0 =
      (case compilation_cache example_warm_world of None \<Rightarrow> Map.empty | Some c \<Rightarrow> c)"
    by (simp add: example_warm_world_def)
  have p3: "?cr32 = Compile (example_env 64) (example_kernel kCPU) example_launch_ctx ?eb
                      [example_blobs 16 ''out_0''] [''in_0''] [''out_0''] []"
    by (simp add: example_env_def example_blobs_def)
  have miss: "GetRecord ?c0 (''add1'', 0, [32]) = None"
    by (simp add: GetRecord_def Record_def)
  have conf: "has_xla_launch_conf (example_kernel kCPU)"
    by (simp add: example_kernel_def)
  show ?thesis
    using build_result_is_cache_copy [OF p1 p2 p3 refl, where ?compile_result0.0 = None]
      miss conf
    by (simp add: example_warm_world_def GetRecord_def Record_def)
qed

subsection \<open>The loops of LaunchExecutable in closed form\<close>

text \<open>
  The result loop leaves the world as it is, and fails exactly when some slot from \<open>i\<close>
  on holds a non-null buffer that is not the output blob's.
\<close>

lemma translate_results_eq:
  "translate_results rb rr i w =
     (if \<exists>k. i \<le> k \<and> k < length rb \<and> opaque (buffers rr [int k]) \<noteq> 0 \<and>
              opaque (buffers rr [int k]) \<noteq> mut_dptr (rb ! k)
      then Inl ResultBufferMismatch else Inr (), w)"
proof (induction rb rr i w rule: translate_results.induct)
  case (1 rb rr i w)
  show ?case
  proof (cases "i < length rb")
    case False
    then show ?thesis by (subst translate_results.simps) auto
  next
    case lt: True
    let ?bad = "\<lambda>k. opaque (buffers rr [int k]) \<noteq> 0 \<and>
                    opaque (buffers rr [int k]) \<noteq> mut_dptr (rb ! k)"
    have split: "(\<exists>k. i \<le> k \<and> k < length rb \<and> ?bad k) \<longleftrightarrow>
                 ?bad i \<or> (\<exists>k. Suc i \<le> k \<and> k < length rb \<and> ?bad k)"
      using lt by (metis Suc_leI le_eq_less_or_eq Suc_le_lessD order_refl)
    show ?thesis
    proof (cases "opaque (buffers rr [int i]) \<noteq> 0")
      case nonnull: True
      show ?thesis
      proof (cases "opaque (buffers rr [int i]) \<noteq> mut_dptr (rb ! i)")
        case True
        then show ?thesis
          using lt nonnull by (subst translate_results.simps) (auto simp: Let_def)
      next
        case False
        then show ?thesis
          using lt nonnull 1(1)[OF lt refl refl nonnull False] split
          by (subst translate_results.simps) (simp add: Let_def)
      qed
    next
      case False
      then show ?thesis
        using lt 1(2)[OF lt refl refl False] split
        by (subst translate_results.simps) (simp add: Let_def)
    qed
  qed
qed

text \<open>
  The input loop fails exactly when some shape from \<open>i\<close> on is a tuple on the device;
  otherwise it appends one buffer per remaining index.
\<close>

lemma translate_inputs_eq:
  "translate_inputs env ctx eb shapes rb i args =
     (if \<exists>j. i \<le> j \<and> j < length shapes \<and> IsTuple (HostShapeToDeviceShape env (shapes ! j))
      then Inl TupleInputNotAllowed
      else Inr (args @ map (\<lambda>j. projr (translate_input env ctx eb shapes rb j))
                         [i..<length shapes]))"
proof (induction env ctx eb shapes rb i args rule: translate_inputs.induct)
  case (1 env ctx eb shapes rb i args)
  show ?case
  proof (cases "i < length shapes")
    case False
    then show ?thesis by (subst translate_inputs.simps) auto
  next
    case lt: True
    let ?bad = "\<lambda>j. IsTuple (HostShapeToDeviceShape env (shapes ! j))"
    have split: "(\<exists>j. i \<le> j \<and> j < length shapes \<and> ?bad j) \<longleftrightarrow>
                 ?bad i \<or> (\<exists>j. Suc i \<le> j \<and> j < length shapes \<and> ?bad j)"
      using lt by (metis Suc_leI le_eq_less_or_eq Suc_le_lessD order_refl)
    show ?thesis
    proof (cases "?bad i")
      case True
      then have "translate_input env ctx eb shapes rb i = Inl TupleInputNotAllowed"
        by (simp add: translate_input_def Let_def)
      then show ?thesis
        using lt True by (subst translate_inputs.simps) auto
    next
      case False
      then obtain sb where sb: "translate_input env ctx eb shapes rb i = Inr sb"
        by (simp add: translate_input_def Let_def)
      show ?thesis
        using lt False sb 1[OF lt sb] split
        by (subst translate_inputs.simps) (auto simp: upt_conv_Cons simp del: upt_Suc)
    qed
  qed
qed

text \<open>The lambda of lines 97 to 111 with its \<open>let\<close>s unfolded.\<close>

lemma run_executable_eq:
  "run_executable env ctx exe args block w =
     (map_option fst (RunAsync env exe args
         \<lparr>run_stream = stream ctx, run_allocator = allocator ctx,
          run_intra_op_thread_pool = host_device ctx, run_rng_seed = GetXLARandomSeed env\<rparr>
         (memory w)),
      w\<lparr>memory := (case RunAsync env exe args
                        \<lparr>run_stream = stream ctx, run_allocator = allocator ctx,
                         run_intra_op_thread_pool = host_device ctx,
                         run_rng_seed = GetXLARandomSeed env\<rparr> (memory w) of
                      None \<Rightarrow> memory w | Some (b, m) \<Rightarrow> m),
        trace := trace w @
          Call_RunAsync exe args
            \<lparr>run_stream = stream ctx, run_allocator = allocator ctx,
             run_intra_op_thread_pool = host_device ctx, run_rng_seed = GetXLARandomSeed env\<rparr> #
          (if block then [Call_BlockHostUntilDone (stream ctx)] else [])\<rparr>)"
  by (simp add: run_executable_def Let_def log_def)

text \<open>\<open>LaunchExecutable\<close> with both loops in closed form.\<close>

lemma LaunchExecutable_eq:
  "LaunchExecutable env ctx exe eb shapes rb osh block w =
     (if length eb \<noteq> length shapes then (Inl InputShapesSizeMismatch, w)
      else if rb = [] then (Inl NeedOneRealOutput, w)
      else if \<exists>j<length shapes. IsTuple (HostShapeToDeviceShape env (shapes ! j))
      then (Inl TupleInputNotAllowed, w)
      else
        (case run_executable env ctx exe
                (map (\<lambda>j. projr (translate_input env ctx eb shapes rb j)) [0..<length shapes])
                block w of
           (None, w1) \<Rightarrow> (Inl RunFailed, w1)
         | (Some rr, w1) \<Rightarrow>
             (if \<not> IsTuple (on_host_shape rr) then Inl ResultShapeNotTuple
              else if \<exists>k<length rb. opaque (buffers rr [int k]) \<noteq> 0 \<and>
                        opaque (buffers rr [int k]) \<noteq> mut_dptr (rb ! k)
              then Inl ResultBufferMismatch else Inr (), w1)))"
  unfolding LaunchExecutable_def translate_inputs_eq translate_results_eq
  by (auto split: prod.splits option.splits)

text \<open>
  What a \<open>RunAsync\<close> among the calls made by \<open>LaunchExecutable\<close> tells: the three checks
  before the run have passed, the arguments are the translated inputs, the options are
  those of the launch context, the only call after it is the wait when asked for, and
  the outcome is decided by the run and the checks on its result.
\<close>

lemma LaunchExecutable_launched:
  assumes "LaunchExecutable env ctx exe eb shapes rb osh block w = (r, w')"
    and "trace w' = trace w @ Call_RunAsync exe' arguments run_options # rest"
  shows "length eb = length shapes \<and> rb \<noteq> [] \<and>
         (\<forall>j<length shapes. \<not> IsTuple (HostShapeToDeviceShape env (shapes ! j))) \<and>
         exe' = exe \<and>
         arguments = map (\<lambda>j. projr (translate_input env ctx eb shapes rb j))
                       [0..<length shapes] \<and>
         run_options = \<lparr>run_stream = stream ctx, run_allocator = allocator ctx,
                         run_intra_op_thread_pool = host_device ctx,
                         run_rng_seed = GetXLARandomSeed env\<rparr> \<and>
         rest = (if block then [Call_BlockHostUntilDone (stream ctx)] else []) \<and>
         (r, w') = (case run_executable env ctx exe arguments block w of
             (None, w1) \<Rightarrow> (Inl RunFailed, w1)
           | (Some rr, w1) \<Rightarrow>
             (if \<not> IsTuple (on_host_shape rr) then Inl ResultShapeNotTuple
              else if \<exists>k<length rb. opaque (buffers rr [int k]) \<noteq> 0 \<and>
                        opaque (buffers rr [int k]) \<noteq> mut_dptr (rb ! k)
              then Inl ResultBufferMismatch else Inr (), w1))"
proof -
  have a: "length eb = length shapes"
    using assms by (auto simp: LaunchExecutable_eq split: if_splits)
  have b: "rb \<noteq> []"
    using assms a by (auto simp: LaunchExecutable_eq split: if_splits)
  have c: "\<forall>j<length shapes. \<not> IsTuple (HostShapeToDeviceShape env (shapes ! j))"
    using assms a b by (auto simp: LaunchExecutable_eq split: if_splits)
  let ?args = "map (\<lambda>j. projr (translate_input env ctx eb shapes rb j)) [0..<length shapes]"
  have d: "(r, w') = (case run_executable env ctx exe ?args block w of
             (None, w1) \<Rightarrow> (Inl RunFailed, w1)
           | (Some rr, w1) \<Rightarrow>
             (if \<not> IsTuple (on_host_shape rr) then Inl ResultShapeNotTuple
              else if \<exists>k<length rb. opaque (buffers rr [int k]) \<noteq> 0 \<and>
                        opaque (buffers rr [int k]) \<noteq> mut_dptr (rb ! k)
              then Inl ResultBufferMismatch else Inr (), w1))"
  proof -
    have nt: "\<not> (\<exists>j<length shapes. IsTuple (HostShapeToDeviceShape env (shapes ! j)))"
      using c by blast
    show ?thesis
      using assms(1)[symmetric] a b unfolding LaunchExecutable_eq by (simp only: nt if_False simp_thms)
  qed
  then have "w' = snd (run_executable env ctx exe ?args block w)"
    by (auto split: prod.splits option.splits)
  then have "trace w' = trace w @ Call_RunAsync exe ?args
            \<lparr>run_stream = stream ctx, run_allocator = allocator ctx,
             run_intra_op_thread_pool = host_device ctx, run_rng_seed = GetXLARandomSeed env\<rparr> #
          (if block then [Call_BlockHostUntilDone (stream ctx)] else [])"
    by (simp add: run_executable_eq)
  with assms(2) have e: "exe' = exe \<and> arguments = ?args \<and>
      run_options = \<lparr>run_stream = stream ctx, run_allocator = allocator ctx,
             run_intra_op_thread_pool = host_device ctx, run_rng_seed = GetXLARandomSeed env\<rparr> \<and>
      rest = (if block then [Call_BlockHostUntilDone (stream ctx)] else [])"
    by simp
  show ?thesis using a b c d e by simp
qed

text \<open>The example launch, evaluated: one input of shape \<open>s0\<close>, one output.\<close>

lemma example_launch:
  "LaunchExecutable (example_env p_out) example_launch_ctx 7 [example_blobs p_in ''in_0'']
      [s0] [example_blobs p_in ''out_0''] osh block w =
   (if IsTuple s0 then (Inl TupleInputNotAllowed, w)
    else
     (if p_out = 0 \<or> p_out = 64 then Inr () else Inl ResultBufferMismatch,
      w\<lparr>memory := (memory w)(p_out := 1),
        trace := trace w @
          Call_RunAsync 7
            (map (\<lambda>j. projr (translate_input (example_env p_out) example_launch_ctx
                         [example_blobs p_in ''in_0''] [s0]
                         [example_blobs p_in ''out_0''] j)) [0..<length [s0]])
            \<lparr>run_stream = 3, run_allocator = 1, run_intra_op_thread_pool = 1,
             run_rng_seed = 42\<rparr> #
          (if block then [Call_BlockHostUntilDone 3] else [])\<rparr>))"
  unfolding LaunchExecutable_eq run_executable_eq
  by (simp add: example_env_def example_launch_ctx_def example_blobs_def mut_dptr_def
        set_buffer_def new_ShapedBuffer_def)

subsection \<open>Launching\<close>

text \<open>
  Claim C3. Let \<open>LaunchExecutable\<close> have invoked the executable (a \<open>RunAsync\<close> is among
  the calls it made) and let the run have produced \<open>run_result\<close>. Then the outcome is
  fatal with \<open>ResultShapeNotTuple\<close> unless the result's shape is a tuple; else fatal with
  \<open>ResultBufferMismatch\<close> if at some return slot \<open>k\<close> the result buffer is non-null and
  is not the pointer of the output blob at slot \<open>k\<close>; and a normal return otherwise.
\<close>

theorem launch_result_postcondition:
  assumes "LaunchExecutable env ctx exe eb shapes rb osh block w = (r, w')"
    and "trace w' = trace w @ Call_RunAsync exe arguments run_options # rest"
    and "RunAsync env exe arguments run_options (memory w) = Some (run_result, m)"
  shows "r = (if \<not> IsTuple (on_host_shape run_result) then Inl ResultShapeNotTuple
              else if \<exists>k<length rb. opaque (buffers run_result [int k]) \<noteq> 0 \<and>
                        opaque (buffers run_result [int k]) \<noteq> mut_dptr (rb ! k)
              then Inl ResultBufferMismatch
              else Inr ())"
proof -
  note l = LaunchExecutable_launched[OF assms(1,2)]
  obtain w1 where run: "run_executable env ctx exe arguments block w = (Some run_result, w1)"
    using l assms(3) by (simp add: run_executable_eq)
  from l have "(r, w') = (case run_executable env ctx exe arguments block w of
             (None, w1) \<Rightarrow> (Inl RunFailed, w1)
           | (Some rr, w1) \<Rightarrow>
             (if \<not> IsTuple (on_host_shape rr) then Inl ResultShapeNotTuple
              else if \<exists>k<length rb. opaque (buffers rr [int k]) \<noteq> 0 \<and>
                        opaque (buffers rr [int k]) \<noteq> mut_dptr (rb ! k)
              then Inl ResultBufferMismatch else Inr (), w1))"
    by simp
  then have "r = fst (if \<not> IsTuple (on_host_shape run_result) then Inl ResultShapeNotTuple
              else if \<exists>k<length rb. opaque (buffers run_result [int k]) \<noteq> 0 \<and>
                        opaque (buffers run_result [int k]) \<noteq> mut_dptr (rb ! k)
              then Inl ResultBufferMismatch else Inr (), w1)"
    unfolding run by (simp only: prod.case option.case fst_conv prod.inject)
  then show ?thesis by simp
qed

theorem launch_result_postcondition_witness:
  "fst (LaunchExecutable (example_env 80) example_launch_ctx 7 [example_blobs 16 ''in_0'']
      [ArrayShape [16]] [example_blobs 16 ''out_0''] (TupleShape [ArrayShape [16]]) True
      example_world) = Inl ResultBufferMismatch"
proof -
  let ?l = "LaunchExecutable (example_env 80) example_launch_ctx 7 [example_blobs 16 ''in_0'']
      [ArrayShape [16]] [example_blobs 16 ''out_0''] (TupleShape [ArrayShape [16]]) True
      example_world"
  let ?args = "map (\<lambda>j. projr (translate_input (example_env 80) example_launch_ctx
                         [example_blobs 16 ''in_0''] [ArrayShape [16]]
                         [example_blobs 16 ''out_0''] j)) [0..<length [ArrayShape [16]]]"
  let ?opts = "\<lparr>run_stream = 3, run_allocator = 1, run_intra_op_thread_pool = 1,
             run_rng_seed = 42\<rparr>"
  let ?rr = "set_buffer \<lparr>opaque = 80, byte_size = 16\<rparr> [0]
                (new_ShapedBuffer (TupleShape [ArrayShape [16]])
                   (TupleShape [ArrayShape [16]]) 0 0)"
  have p1: "?l = (fst ?l, snd ?l)" by simp
  have p2: "trace (snd ?l) = trace example_world @
              Call_RunAsync 7 ?args ?opts # [Call_BlockHostUntilDone 3]"
    by (simp add: example_launch)
  have p3: "RunAsync (example_env 80) 7 ?args ?opts (memory example_world) =
              Some (?rr, (memory example_world)(80 := 1))"
    by (simp add: example_env_def)
  show ?thesis
    using launch_result_postcondition [OF p1 p2 p3]
    by (simp add: set_buffer_def new_ShapedBuffer_def example_blobs_def mut_dptr_def)
qed



text \<open>
  Claim C7. If the device-side shape of some entry is a tuple, \<open>LaunchExecutable\<close> fails
  fatally with the world as it was (nothing has been launched), and with
  \<open>TupleInputNotAllowed\<close> when the two size checks before the loop pass. If no
  device-side shape is a tuple, it does not fail with \<open>TupleInputNotAllowed\<close>.
\<close>

theorem tuple_input_rejected:
  "((\<exists>i<length shapes. IsTuple (HostShapeToDeviceShape env (shapes ! i))) \<longrightarrow>
      (\<exists>e. LaunchExecutable env ctx exe eb shapes rb osh block w = (Inl e, w)) \<and>
      (length eb = length shapes \<and> rb \<noteq> [] \<longrightarrow>
         LaunchExecutable env ctx exe eb shapes rb osh block w = (Inl TupleInputNotAllowed, w))) \<and>
   ((\<forall>i<length shapes. \<not> IsTuple (HostShapeToDeviceShape env (shapes ! i))) \<longrightarrow>
      fst (LaunchExecutable env ctx exe eb shapes rb osh block w) \<noteq> Inl TupleInputNotAllowed)"
  by (auto simp: LaunchExecutable_eq split: prod.splits option.splits)

theorem tuple_input_rejected_witness:
  "LaunchExecutable (example_env 64) example_launch_ctx 7 [example_blobs 16 ''in_0'']
      [TupleShape []] [example_blobs 16 ''out_0''] (TupleShape [ArrayShape [16]]) True
      example_world = (Inl TupleInputNotAllowed, example_world)"
  using tuple_input_rejected
    [of "[TupleShape []]" "example_env 64" example_launch_ctx 7 "[example_blobs 16 ''in_0'']"
        "[example_blobs 16 ''out_0'']" "TupleShape [ArrayShape [16]]" True example_world]
  by (simp add: example_env_def)

text \<open>
  Claim C10. The result loop returns the world, memory included, as it got it. It
  succeeds exactly when every non-null result buffer is the output blob's pointer, so
  a slot whose buffer is null passes without error. And the memory after
  \<open>LaunchExecutable\<close> is either the memory before it or the memory the run of the
  executable left: nothing else writes.
\<close>

theorem result_loop_writes_nothing:
  "snd (translate_results rb run_result 0 w) = w \<and>
   (fst (translate_results rb run_result 0 w) = Inr () \<longleftrightarrow>
      (\<forall>k<length rb. opaque (buffers run_result [int k]) \<noteq> 0 \<longrightarrow>
                      opaque (buffers run_result [int k]) = mut_dptr (rb ! k))) \<and>
   ((\<forall>k<length rb. opaque (buffers run_result [int k]) = 0) \<longrightarrow>
      translate_results rb run_result 0 w = (Inr (), w)) \<and>
   (memory (snd (LaunchExecutable env ctx exe eb shapes rb osh block w)) = memory w \<or>
    (\<exists>arguments run_options rr m.
        RunAsync env exe arguments run_options (memory w) = Some (rr, m) \<and>
        memory (snd (LaunchExecutable env ctx exe eb shapes rb osh block w)) = m))"
proof -
  have "memory (snd (LaunchExecutable env ctx exe eb shapes rb osh block w)) = memory w \<or>
    (\<exists>arguments run_options rr m.
        RunAsync env exe arguments run_options (memory w) = Some (rr, m) \<and>
        memory (snd (LaunchExecutable env ctx exe eb shapes rb osh block w)) = m)"
    unfolding LaunchExecutable_eq run_executable_eq
    by (auto split: option.splits)
  then show ?thesis
    by (auto simp: translate_results_eq)
qed

theorem result_loop_writes_nothing_witness:
  "translate_results [example_blobs 16 ''out_0'']
     (new_ShapedBuffer (TupleShape [ArrayShape [16]]) (TupleShape [ArrayShape [16]]) 0 0)
     0 example_world = (Inr (), example_world)"
  using result_loop_writes_nothing
    [of "[example_blobs 16 ''out_0'']"
        "new_ShapedBuffer (TupleShape [ArrayShape [16]]) (TupleShape [ArrayShape [16]]) 0 0"
        example_world]
  by (simp add: new_ShapedBuffer_def)

subsection \<open>ForwardDataContent in closed form\<close>

text \<open>\<open>BuildLocalExecutable\<close> by cases on the lookup.\<close>

lemma BuildLocalExecutable_eq:
  "BuildLocalExecutable env k ctx eb rb ebn rbn al compile_result0 w =
     (let cache0 = (case compilation_cache w of None \<Rightarrow> Map.empty | Some c \<Rightarrow> c);
          signature = ComputeSignature env (builder_name ctx) (device_ordinal ctx) eb
      in case GetRecord cache0 signature of
           Some cr \<Rightarrow>
             (Inr (Some cr),
              w\<lparr>compilation_cache := Some cache0,
                trace := trace w @ [Call_GetRecord signature]\<rparr>)
         | None \<Rightarrow>
             if \<not> has_xla_launch_conf k
             then (Inl NeedXlaLaunchOpConf,
                   w\<lparr>compilation_cache := Some cache0,
                     trace := trace w @ [Call_GetRecord signature]\<rparr>)
             else
               (Inr (Some (Compile env k ctx eb rb ebn rbn al)),
                w\<lparr>compilation_cache :=
                     Some (Record signature (Compile env k ctx eb rb ebn rbn al) cache0),
                  trace := trace w @ [Call_GetRecord signature, Call_Compile,
                                      Call_Record signature, Call_GetRecord signature]\<rparr>))"
  unfolding BuildLocalExecutable_def Let_def
  by (simp add: log_def GetRecord_def Record_def split: option.splits)

text \<open>
  The two entry vectors are built side by side, so the \<open>CHECK_EQ\<close> of alias resolution
  passes inside \<open>ForwardDataContent\<close>.
\<close>

lemma Alias_prepare_blobs:
  "AliasMutableInputsAndOutputs attr (prepare_blobs k B) =
     Inr (alias_loop attr 0 (prepare_blobs k B))"
  by (simp add: AliasMutableInputsAndOutputs_def prepare_blobs_def)

text \<open>The flag handed to \<open>LaunchExecutable\<close> is whether the device is not a GPU.\<close>

lemma launch_compiled_eq:
  "launch_compiled env k ctx args cr w =
     (if length (return_blobs args) \<noteq> length (ResultAllocationIndices env (executable cr))
      then (Inl AllocationIndicesSizeMismatch, w)
      else LaunchExecutable env ctx (executable cr) (entry_blobs args) (xla_input_shapes cr)
             (return_blobs args) (xla_output_shape cr) (device_type k \<noteq> kGPU)
             (w\<lparr>trace := trace w @
                  [Call_PopulateResultBuffers (return_blobs args)
                     (ResultAllocationIndices env (executable cr))]\<rparr>))"
  by (simp add: launch_compiled_def Let_def log_def)

text \<open>The calls \<open>LaunchExecutable\<close> and the tail of \<open>ForwardDataContent\<close> make.\<close>

lemma LaunchExecutable_trace:
  "\<exists>evs. trace (snd (LaunchExecutable env ctx exe eb shapes rb osh block w)) = trace w @ evs \<and>
         (evs = [] \<or>
          (\<exists>arguments run_options.
             evs = Call_RunAsync exe arguments run_options #
                     (if block then [Call_BlockHostUntilDone (stream ctx)] else [])))"
  unfolding LaunchExecutable_eq run_executable_eq
  by (auto split: option.splits)

lemma launch_compiled_trace:
  "\<exists>evs. trace (snd (launch_compiled env k ctx args cr w)) = trace w @ evs \<and>
         (evs = [] \<or>
          evs = [Call_PopulateResultBuffers (return_blobs args)
                   (ResultAllocationIndices env (executable cr))] \<or>
          (\<exists>arguments run_options.
             evs = Call_PopulateResultBuffers (return_blobs args)
                     (ResultAllocationIndices env (executable cr)) #
                   Call_RunAsync (executable cr) arguments run_options #
                   (if device_type k \<noteq> kGPU then [Call_BlockHostUntilDone (stream ctx)]
                    else [])))"
proof (cases "length (return_blobs args) \<noteq> length (ResultAllocationIndices env (executable cr))")
  case True
  then show ?thesis by (simp add: launch_compiled_eq)
next
  case False
  let ?w1 = "w\<lparr>trace := trace w @
                  [Call_PopulateResultBuffers (return_blobs args)
                     (ResultAllocationIndices env (executable cr))]\<rparr>"
  obtain evs where
    "trace (snd (LaunchExecutable env ctx (executable cr) (entry_blobs args)
        (xla_input_shapes cr) (return_blobs args) (xla_output_shape cr)
        (device_type k \<noteq> kGPU) ?w1)) = trace ?w1 @ evs"
    and "evs = [] \<or>
          (\<exists>arguments run_options.
             evs = Call_RunAsync (executable cr) arguments run_options #
                     (if device_type k \<noteq> kGPU then [Call_BlockHostUntilDone (stream ctx)]
                      else []))"
    using LaunchExecutable_trace by blast
  then show ?thesis
    using False by (auto simp: launch_compiled_eq)
qed

text \<open>
  With a launch configuration, \<open>ForwardDataContent\<close> resolves the aliases, looks the
  signature up, compiles and records on a miss, and goes on to the launch.
\<close>

lemma ForwardDataContent_eq:
  "ForwardDataContent env k device_ctx B w =
     (if \<not> has_xla_launch_conf k then (Inl NeedXlaLaunchOpConf, w)
      else
        let args = alias_loop (launch_attr k) 0 (prepare_blobs k B);
            ctx = NewLaunchContext env (op_name k) device_ctx (device_type k) 1;
            cache0 = (case compilation_cache w of None \<Rightarrow> Map.empty | Some c \<Rightarrow> c);
            signature = ComputeSignature env (builder_name ctx) (device_ordinal ctx)
                          (entry_blobs args)
        in case GetRecord cache0 signature of
             Some cr \<Rightarrow>
               launch_compiled env k ctx args cr
                 (w\<lparr>compilation_cache := Some cache0,
                    trace := trace w @ [Call_AliasMutableInputsAndOutputs,
                                        Call_GetRecord signature]\<rparr>)
           | None \<Rightarrow>
               launch_compiled env k ctx args
                 (Compile env k ctx (entry_blobs args) (return_blobs args)
                    (entry_blob_names args) (return_blob_names args) (aliases args))
                 (w\<lparr>compilation_cache :=
                      Some (Record signature
                              (Compile env k ctx (entry_blobs args) (return_blobs args)
                                 (entry_blob_names args) (return_blob_names args)
                                 (aliases args)) cache0),
                    trace := trace w @ [Call_AliasMutableInputsAndOutputs,
                                        Call_GetRecord signature, Call_Compile,
                                        Call_Record signature, Call_GetRecord signature]\<rparr>))"
  unfolding ForwardDataContent_def Alias_prepare_blobs BuildLocalExecutable_eq Let_def
  by (simp add: log_def split: option.splits)


lemma alias_loop_entry_blobs:
  "entry_blobs (alias_loop attr i s) = entry_blobs s"
  by (simp add: alias_loop_eq Let_def)

lemma ForwardDataContent_launch:
  assumes "has_xla_launch_conf k"
    and "AliasMutableInputsAndOutputs (launch_attr k) (prepare_blobs k B) = Inr args"
    and "ctx = NewLaunchContext env (op_name k) device_ctx (device_type k) 1"
    and "BuildLocalExecutable env k ctx (entry_blobs args) (return_blobs args)
           (entry_blob_names args) (return_blob_names args) (aliases args) None
           (log Call_AliasMutableInputsAndOutputs w) = (Inr (Some cr), w2)"
  shows "ForwardDataContent env k device_ctx B w = launch_compiled env k ctx args cr w2"
  using assms unfolding ForwardDataContent_def Let_def by simp

text \<open>Which of the fatal branches \<open>LaunchExecutable\<close> cannot take.\<close>

lemma LaunchExecutable_errors:
  "fst (LaunchExecutable env ctx exe eb shapes rb osh block w) \<noteq>
     Inl AllocationIndicesSizeMismatch \<and>
   (length eb = length shapes \<longrightarrow>
      fst (LaunchExecutable env ctx exe eb shapes rb osh block w) \<noteq>
        Inl InputShapesSizeMismatch) \<and>
   (rb \<noteq> [] \<longrightarrow>
      fst (LaunchExecutable env ctx exe eb shapes rb osh block w) \<noteq> Inl NeedOneRealOutput)"
  unfolding LaunchExecutable_eq
  by (auto split: prod.splits option.splits)

subsection \<open>The example invocation, evaluated\<close>

text \<open>
  The example kernel with output names \<open>obs\<close>: what alias resolution returns, the launch
  context, the signature and the artifact, and the invocation up to the launch.
\<close>

lemma example_alias:
  "alias_loop (launch_attr ((example_kernel dt)\<lparr>output_bns := obs\<rparr>)) 0
     (prepare_blobs ((example_kernel dt)\<lparr>output_bns := obs\<rparr>) (example_blobs p_in)) =
   \<lparr>entry_blobs = [example_blobs p_in ''in_0''],
    entry_blob_names = [''in_0''],
    return_blobs = map (example_blobs p_in) obs,
    return_blob_names = obs, aliases = []\<rparr>"
  by (simp add: alias_loop_eq Let_def example_kernel_def prepare_blobs_def)

lemma example_ctx:
  "NewLaunchContext (example_env p_out) (op_name ((example_kernel dt)\<lparr>output_bns := obs\<rparr>)) 3
     (device_type ((example_kernel dt)\<lparr>output_bns := obs\<rparr>)) 1 = example_launch_ctx"
  by (simp add: example_env_def example_kernel_def example_launch_ctx_def)

lemma example_signature:
  "ComputeSignature (example_env p_out) (builder_name example_launch_ctx)
     (device_ordinal example_launch_ctx) [example_blobs p_in ''in_0''] = (''add1'', 0, [16])"
  by (simp add: example_env_def example_launch_ctx_def example_blobs_def)

lemma example_compile:
  "Compile (example_env p_out) k ctx [example_blobs p_in ''in_0'']
     (map (example_blobs p_in) obs) ebn rbn al =
   \<lparr>executable = 7, xla_input_shapes = [ArrayShape [16]],
    xla_output_shape = TupleShape (map (\<lambda>bn. ArrayShape [16]) obs)\<rparr>"
  by (simp add: example_env_def example_blobs_def)

lemma example_forward:
  "ForwardDataContent (example_env p_out) ((example_kernel dt)\<lparr>output_bns := obs\<rparr>) 3
     (example_blobs p_in) w =
     (case GetRecord (case compilation_cache w of None \<Rightarrow> Map.empty | Some c \<Rightarrow> c)
             (''add1'', 0, [16]) of
        Some cr \<Rightarrow>
          launch_compiled (example_env p_out) ((example_kernel dt)\<lparr>output_bns := obs\<rparr>)
            example_launch_ctx
            \<lparr>entry_blobs = [example_blobs p_in ''in_0''],
             entry_blob_names = [''in_0''],
             return_blobs = map (example_blobs p_in) obs,
             return_blob_names = obs, aliases = []\<rparr>
            cr
            (w\<lparr>compilation_cache :=
                 Some (case compilation_cache w of None \<Rightarrow> Map.empty | Some c \<Rightarrow> c),
               trace := trace w @ [Call_AliasMutableInputsAndOutputs,
                                   Call_GetRecord (''add1'', 0, [16])]\<rparr>)
      | None \<Rightarrow>
          launch_compiled (example_env p_out) ((example_kernel dt)\<lparr>output_bns := obs\<rparr>)
            example_launch_ctx
            \<lparr>entry_blobs = [example_blobs p_in ''in_0''],
             entry_blob_names = [''in_0''],
             return_blobs = map (example_blobs p_in) obs,
             return_blob_names = obs, aliases = []\<rparr>
            \<lparr>executable = 7, xla_input_shapes = [ArrayShape [16]],
             xla_output_shape = TupleShape (map (\<lambda>bn. ArrayShape [16]) obs)\<rparr>
            (w\<lparr>compilation_cache :=
                 Some (Record (''add1'', 0, [16])
                         \<lparr>executable = 7, xla_input_shapes = [ArrayShape [16]],
                          xla_output_shape = TupleShape (map (\<lambda>bn. ArrayShape [16]) obs)\<rparr>
                         (case compilation_cache w of None \<Rightarrow> Map.empty | Some c \<Rightarrow> c)),
               trace := trace w @ [Call_AliasMutableInputsAndOutputs,
                                   Call_GetRecord (''add1'', 0, [16]), Call_Compile,
                                   Call_Record (''add1'', 0, [16]),
                                   Call_GetRecord (''add1'', 0, [16])]\<rparr>))"
proof -
  have conf: "has_xla_launch_conf ((example_kernel dt)\<lparr>output_bns := obs\<rparr>)"
    by (simp add: example_kernel_def)
  show ?thesis
    unfolding ForwardDataContent_eq Let_def example_alias example_ctx
    using conf
    by (simp add: example_signature example_compile split: option.splits)
qed

lemma example_kernel_outputs:
  "(example_kernel dt)\<lparr>output_bns := [''out_0'']\<rparr> = example_kernel dt"
  by (simp add: example_kernel_def)


lemma example_forward_warm:
  "fst (ForwardDataContent (example_env 64) (example_kernel dt) 3 (example_blobs 16)
          example_warm_world) = Inr () \<and>
   trace (snd (ForwardDataContent (example_env 64) (example_kernel dt) 3 (example_blobs 16)
          example_warm_world)) =
     [Call_AliasMutableInputsAndOutputs, Call_GetRecord (''add1'', 0, [16]),
      Call_PopulateResultBuffers [example_blobs 16 ''out_0''] [0],
      Call_RunAsync 7
        (map (\<lambda>j. projr (translate_input (example_env 64) example_launch_ctx
                       [example_blobs 16 ''in_0''] [ArrayShape [16]]
                       [example_blobs 16 ''out_0''] j)) [0..<length [ArrayShape [16]]])
        \<lparr>run_stream = 3, run_allocator = 1, run_intra_op_thread_pool = 1,
         run_rng_seed = 42\<rparr>] @
     (if dt \<noteq> kGPU then [Call_BlockHostUntilDone 3] else [])"
proof -
  have rai: "ResultAllocationIndices (example_env 64) 7 = [0]"
    by (simp add: example_env_def)
  have dt: "device_type (example_kernel dt) = dt"
    by (simp add: example_kernel_def)
  show ?thesis
    using example_forward[where p_out = 64 and dt = dt and obs = "[''out_0'']" and p_in = 16
            and w = example_warm_world]
    unfolding example_kernel_outputs
    by (simp add: example_warm_world_def GetRecord_def Record_def launch_compiled_eq rai dt
          example_launch)
qed

subsection \<open>The invocation as a whole\<close>

text \<open>
  Claim C6. Take an invocation that has resolved its aliases to \<open>args\<close> and obtained the
  compiled artifact \<open>cr\<close>, the world then being \<open>w2\<close>. If the allocation-index mapping
  has not one entry per return tensor, the invocation fails with
  \<open>AllocationIndicesSizeMismatch\<close> in the world \<open>w2\<close>. Else, if the number of entry
  tensors differs from the number of input shapes of the artifact, it fails with
  \<open>InputShapesSizeMismatch\<close>; else, if there is no return tensor, it fails with
  \<open>NeedOneRealOutput\<close>; in both cases the only call made after \<open>w2\<close> is
  \<open>PopulateResultBuffers\<close>, so the executable has not been launched. Under the negation
  of each condition the corresponding failure does not occur.
\<close>

theorem size_checks_before_launch:
  assumes "has_xla_launch_conf k"
    and "AliasMutableInputsAndOutputs (launch_attr k) (prepare_blobs k B) = Inr args"
    and "ctx = NewLaunchContext env (op_name k) device_ctx (device_type k) 1"
    and "BuildLocalExecutable env k ctx (entry_blobs args) (return_blobs args)
           (entry_blob_names args) (return_blob_names args) (aliases args) None
           (log Call_AliasMutableInputsAndOutputs w) = (Inr (Some cr), w2)"
    and "ForwardDataContent env k device_ctx B w = (r, w')"
    and "allocation_indices = ResultAllocationIndices env (executable cr)"
  shows "(length (return_blobs args) \<noteq> length allocation_indices \<longrightarrow>
            r = Inl AllocationIndicesSizeMismatch \<and> w' = w2) \<and>
         (length (return_blobs args) = length allocation_indices \<and>
          length (entry_blobs args) \<noteq> length (xla_input_shapes cr) \<longrightarrow>
            r = Inl InputShapesSizeMismatch \<and>
            w' = log (Call_PopulateResultBuffers (return_blobs args) allocation_indices) w2) \<and>
         (length (return_blobs args) = length allocation_indices \<and>
          length (entry_blobs args) = length (xla_input_shapes cr) \<and>
          return_blobs args = [] \<longrightarrow>
            r = Inl NeedOneRealOutput \<and>
            w' = log (Call_PopulateResultBuffers (return_blobs args) allocation_indices) w2) \<and>
         (length (entry_blobs args) = length (xla_input_shapes cr) \<longrightarrow>
            r \<noteq> Inl InputShapesSizeMismatch) \<and>
         (return_blobs args \<noteq> [] \<longrightarrow> r \<noteq> Inl NeedOneRealOutput) \<and>
         (length (return_blobs args) = length allocation_indices \<longrightarrow>
            r \<noteq> Inl AllocationIndicesSizeMismatch)"
proof -
  let ?w3 = "log (Call_PopulateResultBuffers (return_blobs args) allocation_indices) w2"
  let ?le = "LaunchExecutable env ctx (executable cr) (entry_blobs args) (xla_input_shapes cr)
               (return_blobs args) (xla_output_shape cr) (device_type k \<noteq> kGPU) ?w3"
  have lc: "launch_compiled env k ctx args cr w2 = (r, w')"
    using ForwardDataContent_launch[OF assms(1-4)] assms(5) by simp
  have mismatch: "length (return_blobs args) \<noteq> length allocation_indices \<Longrightarrow>
                    r = Inl AllocationIndicesSizeMismatch \<and> w' = w2"
    using lc by (simp add: launch_compiled_eq assms(6))
  have launched: "length (return_blobs args) = length allocation_indices \<Longrightarrow> ?le = (r, w')"
    using lc by (simp add: launch_compiled_eq assms(6) log_def)
  have c1: "length (return_blobs args) = length allocation_indices \<Longrightarrow>
            length (entry_blobs args) \<noteq> length (xla_input_shapes cr) \<Longrightarrow>
            r = Inl InputShapesSizeMismatch \<and> w' = ?w3"
    using launched by (simp add: LaunchExecutable_eq)
  have c2: "length (return_blobs args) = length allocation_indices \<Longrightarrow>
            length (entry_blobs args) = length (xla_input_shapes cr) \<Longrightarrow>
            return_blobs args = [] \<Longrightarrow>
            r = Inl NeedOneRealOutput \<and> w' = ?w3"
    using launched by (simp add: LaunchExecutable_eq)
  have n1: "length (entry_blobs args) = length (xla_input_shapes cr) \<Longrightarrow>
            r \<noteq> Inl InputShapesSizeMismatch"
  proof (cases "length (return_blobs args) = length allocation_indices")
    case True
    assume "length (entry_blobs args) = length (xla_input_shapes cr)"
    then show ?thesis
      using launched[OF True] LaunchExecutable_errors[of env ctx "executable cr"
        "entry_blobs args" "xla_input_shapes cr" "return_blobs args" "xla_output_shape cr"
        "device_type k \<noteq> kGPU" ?w3]
      by simp
  next
    case False
    then show ?thesis using mismatch by simp
  qed
  have n2: "return_blobs args \<noteq> [] \<Longrightarrow> r \<noteq> Inl NeedOneRealOutput"
  proof (cases "length (return_blobs args) = length allocation_indices")
    case True
    assume "return_blobs args \<noteq> []"
    then show ?thesis
      using launched[OF True] LaunchExecutable_errors[of env ctx "executable cr"
        "entry_blobs args" "xla_input_shapes cr" "return_blobs args" "xla_output_shape cr"
        "device_type k \<noteq> kGPU" ?w3]
      by simp
  next
    case False
    then show ?thesis using mismatch by simp
  qed
  have n3: "length (return_blobs args) = length allocation_indices \<Longrightarrow>
            r \<noteq> Inl AllocationIndicesSizeMismatch"
    using launched LaunchExecutable_errors[of env ctx "executable cr"
        "entry_blobs args" "xla_input_shapes cr" "return_blobs args" "xla_output_shape cr"
        "device_type k \<noteq> kGPU" ?w3]
    by auto
  show ?thesis
    using mismatch c1 c2 n1 n2 n3 by blast
qed


theorem size_checks_before_launch_witness:
  "ForwardDataContent (example_env 64) ((example_kernel kCPU)\<lparr>output_bns := []\<rparr>) 3
     (example_blobs 16) example_world =
   (Inl AllocationIndicesSizeMismatch,
    snd (BuildLocalExecutable (example_env 64) ((example_kernel kCPU)\<lparr>output_bns := []\<rparr>)
           example_launch_ctx [example_blobs 16 ''in_0''] [] [''in_0''] [] [] None
           (log Call_AliasMutableInputsAndOutputs example_world)))"
proof -
  let ?k = "(example_kernel kCPU)\<lparr>output_bns := []\<rparr>"
  let ?args = "\<lparr>entry_blobs = [example_blobs 16 ''in_0''], entry_blob_names = [''in_0''],
                return_blobs = [], return_blob_names = [], aliases = []\<rparr>"
  let ?cr = "\<lparr>executable = 7, xla_input_shapes = [ArrayShape [16]],
              xla_output_shape = TupleShape []\<rparr>"
  let ?b = "BuildLocalExecutable (example_env 64) ?k example_launch_ctx
              (entry_blobs ?args) (return_blobs ?args) (entry_blob_names ?args)
              (return_blob_names ?args) (aliases ?args) None
              (log Call_AliasMutableInputsAndOutputs example_world)"
  let ?f = "ForwardDataContent (example_env 64) ?k 3 (example_blobs 16) example_world"
  have p1: "has_xla_launch_conf ?k"
    by (simp add: example_kernel_def)
  have p2: "AliasMutableInputsAndOutputs (launch_attr ?k) (prepare_blobs ?k (example_blobs 16)) =
              Inr ?args"
    unfolding Alias_prepare_blobs example_alias by simp
  have p3: "example_launch_ctx =
      NewLaunchContext (example_env 64) (op_name ?k) 3 (device_type ?k) 1"
    by (simp add: example_env_def example_kernel_def example_launch_ctx_def)
  have "fst ?b = Inr (Some ?cr)"
    by (simp add: BuildLocalExecutable_eq Let_def log_def example_world_def GetRecord_def p1
          example_env_def example_blobs_def)
  then have p4: "?b = (Inr (Some ?cr), snd ?b)"
    by (metis prod.collapse)
  have p5: "?f = (fst ?f, snd ?f)" by simp
  have p6: "[0] = ResultAllocationIndices (example_env 64) (executable ?cr)"
    by (simp add: example_env_def)
  have "fst ?f = Inl AllocationIndicesSizeMismatch \<and> snd ?f = snd ?b"
    using size_checks_before_launch [OF p1 p2 p3 p4 p5 p6] by simp
  then show ?thesis
    by (simp add: prod_eq_iff)
qed

text \<open>The calls an invocation makes, in order.\<close>

lemma ForwardDataContent_trace:
  assumes "has_xla_launch_conf k"
    and "ctx = NewLaunchContext env (op_name k) device_ctx (device_type k) 1"
    and "signature = ComputeSignature env (builder_name ctx) (device_ordinal ctx)
                       (map B (input_bns k))"
    and "cache0 = (case compilation_cache w of None \<Rightarrow> Map.empty | Some c \<Rightarrow> c)"
  shows "\<exists>post. trace (snd (ForwardDataContent env k device_ctx B w)) =
           trace w @ [Call_AliasMutableInputsAndOutputs, Call_GetRecord signature] @
           (if GetRecord cache0 signature = None
            then [Call_Compile, Call_Record signature, Call_GetRecord signature] else []) @ post \<and>
         (post = [] \<or> (\<exists>bl ai. post = [Call_PopulateResultBuffers bl ai]) \<or>
          (\<exists>bl ai exe arguments run_options.
             post = Call_PopulateResultBuffers bl ai # Call_RunAsync exe arguments run_options #
                    (if device_type k \<noteq> kGPU then [Call_BlockHostUntilDone (stream ctx)]
                     else [])))"
proof -
  let ?args = "alias_loop (launch_attr k) 0 (prepare_blobs k B)"
  have eb: "entry_blobs ?args = map B (input_bns k)"
    by (simp add: alias_loop_entry_blobs prepare_blobs_def)
  show ?thesis
  proof (cases "GetRecord cache0 signature")
    case None
    let ?cr = "Compile env k ctx (entry_blobs ?args) (return_blobs ?args)
                 (entry_blob_names ?args) (return_blob_names ?args) (aliases ?args)"
    let ?w2 = "w\<lparr>compilation_cache := Some (Record signature ?cr cache0),
                 trace := trace w @ [Call_AliasMutableInputsAndOutputs,
                                     Call_GetRecord signature, Call_Compile,
                                     Call_Record signature, Call_GetRecord signature]\<rparr>"
    have "ForwardDataContent env k device_ctx B w = launch_compiled env k ctx ?args ?cr ?w2"
      using assms(1) None
      unfolding ForwardDataContent_eq Let_def assms(2)[symmetric] eb assms(3)[symmetric]
        assms(4)[symmetric]
      by simp
    then show ?thesis
      using launch_compiled_trace[of env k ctx ?args ?cr ?w2] None by auto
  next
    case (Some cr)
    let ?w2 = "w\<lparr>compilation_cache := Some cache0,
                 trace := trace w @ [Call_AliasMutableInputsAndOutputs,
                                     Call_GetRecord signature]\<rparr>"
    have "ForwardDataContent env k device_ctx B w = launch_compiled env k ctx ?args cr ?w2"
      using assms(1) Some
      unfolding ForwardDataContent_eq Let_def assms(2)[symmetric] eb assms(3)[symmetric]
        assms(4)[symmetric]
      by simp
    then show ?thesis
      using launch_compiled_trace[of env k ctx ?args cr ?w2] Some by auto
  qed
qed

text \<open>
  Claim C8 as stated fails: alias resolution is line 175 of \<open>ForwardDataContent\<close>, ahead
  of the call to \<open>BuildLocalExecutable\<close> that consults the cache, and is not conditional
  on a miss. On the warm cache the example invocation hits (nothing is compiled), and
  yet its first call is alias resolution, the lookup coming second.
\<close>

theorem alias_resolution_on_cache_hit:
  "fst (ForwardDataContent (example_env 64) (example_kernel kCPU) 3 (example_blobs 16)
          example_warm_world) = Inr () \<and>
   take 2 (trace (snd (ForwardDataContent (example_env 64) (example_kernel kCPU) 3
                         (example_blobs 16) example_warm_world))) =
     [Call_AliasMutableInputsAndOutputs, Call_GetRecord (''add1'', 0, [16])] \<and>
   Call_Compile \<notin> set (trace (snd (ForwardDataContent (example_env 64) (example_kernel kCPU) 3
                                     (example_blobs 16) example_warm_world)))"
  by (simp add: example_forward_warm)

text \<open>
  Claim C8, as amended. In every invocation that has a launch configuration, alias
  resolution is performed first, on a cache hit as on a miss, and the cache is
  consulted for the signature after it. The \<open>GraphCompiler\<close> is invoked only on a miss,
  after the lookup, and its artifact is recorded and fetched again. What follows (the
  invocation of the artifact) resolves no alias, compiles nothing and does not touch
  the cache.
\<close>

theorem alias_resolution_precedes_lookup:
  assumes "has_xla_launch_conf k"
    and "ForwardDataContent env k device_ctx B w = (r, w')"
    and "ctx = NewLaunchContext env (op_name k) device_ctx (device_type k) 1"
    and "signature = ComputeSignature env (builder_name ctx) (device_ordinal ctx)
                       (map B (input_bns k))"
    and "cache0 = (case compilation_cache w of None \<Rightarrow> Map.empty | Some c \<Rightarrow> c)"
  shows "\<exists>rest. trace w' =
           trace w @ [Call_AliasMutableInputsAndOutputs, Call_GetRecord signature] @
           (if GetRecord cache0 signature = None
            then [Call_Compile, Call_Record signature, Call_GetRecord signature] else []) @ rest \<and>
         Call_AliasMutableInputsAndOutputs \<notin> set rest \<and> Call_Compile \<notin> set rest \<and>
         (\<forall>s. Call_GetRecord s \<notin> set rest \<and> Call_Record s \<notin> set rest)"
proof -
  obtain post where
    t: "trace (snd (ForwardDataContent env k device_ctx B w)) =
           trace w @ [Call_AliasMutableInputsAndOutputs, Call_GetRecord signature] @
           (if GetRecord cache0 signature = None
            then [Call_Compile, Call_Record signature, Call_GetRecord signature] else []) @ post"
    and p: "post = [] \<or> (\<exists>bl ai. post = [Call_PopulateResultBuffers bl ai]) \<or>
          (\<exists>bl ai exe arguments run_options.
             post = Call_PopulateResultBuffers bl ai # Call_RunAsync exe arguments run_options #
                    (if device_type k \<noteq> kGPU then [Call_BlockHostUntilDone (stream ctx)]
                     else []))"
    using ForwardDataContent_trace[OF assms(1,3,4,5)] by blast
  have "Call_AliasMutableInputsAndOutputs \<notin> set post \<and> Call_Compile \<notin> set post \<and>
         (\<forall>s. Call_GetRecord s \<notin> set post \<and> Call_Record s \<notin> set post)"
    using p by auto
  with t assms(2) show ?thesis by auto
qed

theorem alias_resolution_precedes_lookup_witness:
  "\<exists>rest. trace (snd (ForwardDataContent (example_env 64) (example_kernel kCPU) 3
                        (example_blobs 16) example_world)) =
            [Call_AliasMutableInputsAndOutputs, Call_GetRecord (''add1'', 0, [16]),
             Call_Compile, Call_Record (''add1'', 0, [16]),
             Call_GetRecord (''add1'', 0, [16])] @ rest \<and>
          Call_AliasMutableInputsAndOutputs \<notin> set rest \<and> Call_Compile \<notin> set rest"
proof -
  let ?f = "ForwardDataContent (example_env 64) (example_kernel kCPU) 3 (example_blobs 16)
              example_world"
  have p1: "has_xla_launch_conf (example_kernel kCPU)"
    by (simp add: example_kernel_def)
  have p2: "?f = (fst ?f, snd ?f)" by simp
  have p3: "example_launch_ctx =
      NewLaunchContext (example_env 64) (op_name (example_kernel kCPU)) 3
        (device_type (example_kernel kCPU)) 1"
    by (simp add: example_env_def example_kernel_def example_launch_ctx_def)
  have p4: "(''add1'', 0, [16]) =
      ComputeSignature (example_env 64) (builder_name example_launch_ctx)
        (device_ordinal example_launch_ctx)
        (map (example_blobs 16) (input_bns (example_kernel kCPU)))"
    by (simp add: example_env_def example_kernel_def example_launch_ctx_def example_blobs_def)
  have p5: "Map.empty =
      (case compilation_cache example_world of None \<Rightarrow> Map.empty | Some c \<Rightarrow> c)"
    by (simp add: example_world_def)
  have miss: "GetRecord (Map.empty :: example_signature XlaCompilationCache)
                (''add1'', 0, [16]) = None"
    by (simp add: GetRecord_def)
  show ?thesis
    using alias_resolution_precedes_lookup [OF p1 p2 p3 p4 p5] miss
    by (auto simp: example_world_def)
qed



end
